theory Spec2Isabelle
  imports Main "HOL-Library.Sublist"
begin

section \<open>Python values, exceptions and observable events\<close>

text \<open>
  The program is \<^verbatim>\<open>src/pdf_tools.py\<close>: \<^verbatim>\<open>extract_text\<close> and \<^verbatim>\<open>rename_from_text\<close>.
  Every exception the code can meet is a value of \<open>exn\<close>; a computation that may raise
  returns \<open>exn + 'a\<close> with \<open>Inl\<close> for the exception.  \<open>PdfError\<close> stands for whatever the
  PDF library raises on a document it cannot read.
\<close>

datatype exn = IndexError | KeyError | ValueError | TypeError | AttributeError | OSError | PdfError

text \<open>A capture group is \<^verbatim>\<open>None\<close> (it did not take part in the match) or a \<^verbatim>\<open>str\<close>.\<close>

type_synonym pyval = "string option"

datatype level = INFO | WARNING | ERROR

text \<open>
  One constructor per log call of the source, carrying the values its f-string
  interpolates; the decoration of the text is left out.
\<close>

datatype msg =
    Extracted int string
  | ExtractFailed string exn
  | InvalidPattern string
  | NoPdfFound string
  | Processing nat string
  | PatternIs string
  | TemplateIs string
  | ModeIs bool
  | NoTextExtracted string
  | PatternNotFound string
  | TargetExists string string
  | RenamePlan bool string string
  | TemplateError string exn
  | RegexCaptured "pyval list" "(string \<times> pyval) list"
  | Summary nat nat bool
  | RunWithApply

text \<open>
  What the program does to the outside, in order: a log record, a line on standard
  output, a call of the operating system's rename.
\<close>

datatype event = Log level msg | Print string | Rename string string

section \<open>\<^verbatim>\<open>str.format\<close>\<close>

text \<open>
  \<^verbatim>\<open>template.format(*groups_1indexed, **m.groupdict())\<close> is Python's format-string
  interpreter.  The model follows the interpreter's own passes: the markup iterator cuts
  the template into literal text and replacement fields (\<^verbatim>\<open>{{\<close> and \<^verbatim>\<open>}}\<close> are escapes),
  a field is split into its name, conversion and format specification, the first part of
  the name is looked up among the positional arguments (all digits, or empty for automatic
  numbering) or the keyword arguments, and the object found is written out.  Errors come
  in the order the interpreter meets them, left to right.
\<close>

record repl_field =
  field_name :: string
  conversion :: "char option"
  format_spec :: string

fun cons_name :: "char \<Rightarrow> exn + (string \<times> 'a) \<Rightarrow> exn + (string \<times> 'a)" where
  "cons_name c (Inl e) = Inl e"
| "cons_name c (Inr (n, r)) = Inr (c # n, r)"

text \<open>
  The field name ends at the first \<^verbatim>\<open>}\<close>, \<^verbatim>\<open>:\<close> or \<^verbatim>\<open>!\<close> outside square brackets; a \<^verbatim>\<open>{\<close>
  in it, or the end of the template, is a \<^verbatim>\<open>ValueError\<close>.  The flag says whether the scan
  is inside brackets.  The result is the name and the rest from the terminator on.
\<close>

fun scan_name :: "bool \<Rightarrow> string \<Rightarrow> exn + (string \<times> string)" where
  "scan_name inb [] = Inl ValueError"
| "scan_name True (c # cs) =
     (if c = CHR '']'' then cons_name c (scan_name False cs)
      else cons_name c (scan_name True cs))"
| "scan_name False (c # cs) =
     (if c = CHR ''{'' then Inl ValueError
      else if c = CHR ''['' then cons_name c (scan_name True cs)
      else if c = CHR ''}'' \<or> c = CHR '':'' \<or> c = CHR ''!'' then Inr ([], c # cs)
      else cons_name c (scan_name False cs))"

text \<open>
  The format specification runs to the \<^verbatim>\<open>}\<close> that closes the field, nested braces
  counted; the number is the count of braces still open inside it.
\<close>

fun scan_spec :: "nat \<Rightarrow> string \<Rightarrow> exn + (string \<times> string)" where
  "scan_spec n [] = Inl ValueError"
| "scan_spec n (c # cs) =
     (if c = CHR ''{'' then cons_name c (scan_spec (Suc n) cs)
      else if c = CHR ''}'' then
        (case n of 0 \<Rightarrow> Inr ([], cs) | Suc k \<Rightarrow> cons_name c (scan_spec k cs))
      else cons_name c (scan_spec n cs))"

definition with_spec :: "string \<Rightarrow> char option \<Rightarrow> string \<Rightarrow> exn + (repl_field \<times> string)" where
  "with_spec name cv s =
     (case scan_spec 0 s of
        Inl e \<Rightarrow> Inl e
      | Inr (spec, rest) \<Rightarrow>
          Inr (\<lparr>field_name = name, conversion = cv, format_spec = spec\<rparr>, rest))"

text \<open>The text after an opening brace, up to and including the closing one.\<close>

definition parse_field :: "string \<Rightarrow> exn + (repl_field \<times> string)" where
  "parse_field s =
     (case scan_name False s of
        Inl e \<Rightarrow> Inl e
      | Inr (name, r) \<Rightarrow>
          (case r of
             [] \<Rightarrow> Inl ValueError
           | t # r0 \<Rightarrow>
               if t = CHR ''}'' then
                 Inr (\<lparr>field_name = name, conversion = None, format_spec = []\<rparr>, r0)
               else if t = CHR ''!'' then
                 (case r0 of
                    [] \<Rightarrow> Inl ValueError
                  | cv # r1 \<Rightarrow>
                      (case r1 of
                         [] \<Rightarrow> Inl ValueError
                       | c # r2 \<Rightarrow>
                           if c = CHR ''}'' then
                             Inr (\<lparr>field_name = name, conversion = Some cv,
                                   format_spec = []\<rparr>, r2)
                           else if c \<noteq> CHR '':'' then Inl ValueError
                           else with_spec name (Some cv) r2))
               else with_spec name None r0))"

definition not_brace :: "char \<Rightarrow> bool" where
  "not_brace c = (c \<noteq> CHR ''{'' \<and> c \<noteq> CHR ''}'')"

text \<open>
  One step of the markup iterator: \<open>Inr None\<close> at the end of the template, otherwise the
  literal text, the replacement field that follows it (if one does) and the rest.
\<close>

definition markup_next :: "string \<Rightarrow> exn + (string \<times> repl_field option \<times> string) option" where
  "markup_next s =
     (if s = [] then Inr None
      else
        (let lit = takeWhile not_brace s in
         case dropWhile not_brace s of
           [] \<Rightarrow> Inr (Some (lit, None, []))
         | c # r \<Rightarrow>
             (case r of
                [] \<Rightarrow> Inl ValueError
              | d # r' \<Rightarrow>
                  if d = c then Inr (Some (lit @ [c], None, r'))
                  else if c = CHR ''}'' then Inl ValueError
                  else
                    (case parse_field r of
                       Inl e \<Rightarrow> Inl e
                     | Inr (f, rest) \<Rightarrow> Inr (Some (lit, Some f, rest))))))"

text \<open>
  A decimal digit's value.  Only the ASCII digits are recognised.
\<close>

definition digitval :: "char \<Rightarrow> nat option" where
  "digitval c =
     (let n = (of_char c :: nat) in if 48 \<le> n \<and> n \<le> 57 then Some (n - 48) else None)"

definition PY_SSIZE_T_MAX :: nat where
  "PY_SSIZE_T_MAX = 2 ^ 63 - 1"

text \<open>
  \<open>Inr None\<close>: not a number (the name is a keyword); an index too large for the
  interpreter's integers is a \<^verbatim>\<open>ValueError\<close>.
\<close>

fun get_integer_from :: "nat \<Rightarrow> string \<Rightarrow> exn + nat option" where
  "get_integer_from acc [] = Inr (Some acc)"
| "get_integer_from acc (c # cs) =
     (case digitval c of
        None \<Rightarrow> Inr None
      | Some d \<Rightarrow>
          if acc > (PY_SSIZE_T_MAX - d) div 10 then Inl ValueError
          else get_integer_from (acc * 10 + d) cs)"

definition get_integer :: "string \<Rightarrow> exn + nat option" where
  "get_integer s = (if s = [] then Inr None else get_integer_from 0 s)"

datatype an_state = ANS_INIT | ANS_AUTO | ANS_MANUAL

record auto_number =
  an_state :: an_state
  an_field_number :: nat

definition not_accessor :: "char \<Rightarrow> bool" where
  "not_accessor c = (c \<noteq> CHR ''.'' \<and> c \<noteq> CHR ''['')"

text \<open>
  The first part of a field name, looked up: an index into the positional arguments
  (\<^verbatim>\<open>IndexError\<close> out of range), the next automatic index when the name is empty, or a
  key of the keyword arguments (\<^verbatim>\<open>KeyError\<close> when absent).  Automatic and explicit
  numbering do not mix (\<^verbatim>\<open>ValueError\<close>).
\<close>

definition get_first_object ::
  "string \<Rightarrow> pyval list \<Rightarrow> (string \<times> pyval) list \<Rightarrow> auto_number \<Rightarrow> exn + (pyval \<times> auto_number)"
where
  "get_first_object first args kwargs an =
     (case get_integer first of
        Inl e \<Rightarrow> Inl e
      | Inr idx \<Rightarrow>
          (let field_name_is_empty = (first = []);
               using_numeric_index = (field_name_is_empty \<or> idx \<noteq> None)
           in
           if using_numeric_index then
             (let st = (if an_state an = ANS_INIT
                        then (if field_name_is_empty then ANS_AUTO else ANS_MANUAL)
                        else an_state an)
              in
              if st = ANS_MANUAL \<and> field_name_is_empty then Inl ValueError
              else if st \<noteq> ANS_MANUAL \<and> \<not> field_name_is_empty then Inl ValueError
              else
                (let i = (if field_name_is_empty then an_field_number an else the idx);
                     an' = \<lparr>an_state = st,
                            an_field_number =
                              (if field_name_is_empty then Suc (an_field_number an)
                               else an_field_number an)\<rparr>
                 in if i < length args then Inr (args ! i, an') else Inl IndexError))
           else
             (case map_of kwargs first of
                None \<Rightarrow> Inl KeyError
              | Some v \<Rightarrow> Inr (v, an))))"

text \<open>\<^verbatim>\<open>format(obj, "")\<close> of the two kinds of value a capture group can be.\<close>

fun str_of :: "pyval \<Rightarrow> string" where
  "str_of None = ''None''"
| "str_of (Some s) = s"

text \<open>
  A field that goes on after its first part (\<^verbatim>\<open>.attr\<close>, \<^verbatim>\<open>[index]\<close>), converts (\<^verbatim>\<open>!r\<close>) or
  carries a format specification is written by Python's object protocol, which is not
  part of the program: its outcome is the parameter \<open>obj_fmt\<close>, given the object, the rest
  of the name, the conversion, the specification, the arguments and the numbering state.
\<close>

type_synonym obj_fmt =
  "pyval \<Rightarrow> string \<Rightarrow> char option \<Rightarrow> string \<Rightarrow> pyval list \<Rightarrow> (string \<times> pyval) list \<Rightarrow>
   auto_number \<Rightarrow> exn + (string \<times> auto_number)"

definition output_markup ::
  "obj_fmt \<Rightarrow> repl_field \<Rightarrow> pyval list \<Rightarrow> (string \<times> pyval) list \<Rightarrow> auto_number \<Rightarrow>
   exn + (string \<times> auto_number)"
where
  "output_markup X f args kwargs an =
     (let first = takeWhile not_accessor (field_name f);
          rest = dropWhile not_accessor (field_name f)
      in
      case get_first_object first args kwargs an of
        Inl e \<Rightarrow> Inl e
      | Inr (obj, an') \<Rightarrow>
          if rest = [] \<and> conversion f = None \<and> format_spec f = [] then Inr (str_of obj, an')
          else X obj rest (conversion f) (format_spec f) args kwargs an')"

subsection \<open>The interpreter's loop\<close>

lemma cons_name_Inr:
  "cons_name c x = Inr (n, r) \<Longrightarrow> \<exists>n'. x = Inr (n', r) \<and> n = c # n'"
  by (cases x) auto

lemma scan_name_length: "scan_name b s = Inr (n, r) \<Longrightarrow> length r \<le> length s"
proof (induction b s arbitrary: n rule: scan_name.induct)
  case (1 inb)
  then show ?case by simp
next
  case (2 c cs)
  then show ?case by (fastforce split: if_splits dest!: cons_name_Inr)
next
  case (3 c cs)
  then show ?case by (fastforce split: if_splits dest!: cons_name_Inr)
qed

lemma scan_spec_length: "scan_spec k s = Inr (n, r) \<Longrightarrow> length r < length s"
proof (induction k s arbitrary: n rule: scan_spec.induct)
  case (1 k)
  then show ?case by simp
next
  case (2 k c cs)
  then show ?case by (fastforce split: if_splits nat.splits dest!: cons_name_Inr)
qed

lemma with_spec_length: "with_spec name cv s = Inr (f, r) \<Longrightarrow> length r < length s"
  by (auto simp: with_spec_def split: sum.splits dest: scan_spec_length)

lemma parse_field_length: "parse_field s = Inr (f, r) \<Longrightarrow> length r < length s"
  by (auto simp: parse_field_def split: sum.splits list.splits if_splits
      dest!: scan_name_length with_spec_length)

lemma markup_next_length:
  assumes "markup_next s = Inr (Some (lit, fo, r))"
  shows "length r < length s"
proof -
  have le: "length (dropWhile not_brace s) \<le> length s"
    by (rule length_dropWhile_le)
  show ?thesis
    using assms le
    by (auto simp: markup_next_def Let_def split: if_splits list.splits sum.splits
        dest!: parse_field_length)
qed

function build_string ::
  "obj_fmt \<Rightarrow> string \<Rightarrow> pyval list \<Rightarrow> (string \<times> pyval) list \<Rightarrow> auto_number \<Rightarrow> exn + string"
where
  "build_string X s args kwargs an =
     (case markup_next s of
        Inl e \<Rightarrow> Inl e
      | Inr None \<Rightarrow> Inr []
      | Inr (Some (lit, None, rest)) \<Rightarrow>
          (case build_string X rest args kwargs an of
             Inl e \<Rightarrow> Inl e
           | Inr out \<Rightarrow> Inr (lit @ out))
      | Inr (Some (lit, Some f, rest)) \<Rightarrow>
          (case output_markup X f args kwargs an of
             Inl e \<Rightarrow> Inl e
           | Inr (txt, an') \<Rightarrow>
               (case build_string X rest args kwargs an' of
                  Inl e \<Rightarrow> Inl e
                | Inr out \<Rightarrow> Inr (lit @ txt @ out))))"
  by pat_completeness auto
termination
  by (relation "measure (\<lambda>(X, s, args, kwargs, an). length s)")
    (auto dest: markup_next_length)

declare build_string.simps [simp del]

definition str_format ::
  "obj_fmt \<Rightarrow> string \<Rightarrow> pyval list \<Rightarrow> (string \<times> pyval) list \<Rightarrow> exn + string"
where
  "str_format X template args kwargs =
     build_string X template args kwargs \<lparr>an_state = ANS_INIT, an_field_number = 0\<rparr>"

section \<open>Documents and the folder\<close>

text \<open>
  The PDF library is outside the program.  What the program sees of it: opening a
  document raises or gives its pages, and the text of a page raises, is \<^verbatim>\<open>None\<close>, or is a
  string.
\<close>

type_synonym page = "exn + string option"

type_synonym pdf_file = "exn + page list"

text \<open>
  The folder: its entries in listing order, each a name and what opening it as a PDF
  gives, and the renames the operating system refuses (permissions, name length, ...).
  The folder itself is readable: listing it and testing a name do not fail.
\<close>

record filesys =
  entries :: "(string \<times> pdf_file) list"
  refuses :: "string \<Rightarrow> string \<Rightarrow> bool"

definition pdf_open :: "filesys \<Rightarrow> string \<Rightarrow> exn + page list" where
  "pdf_open fs name = (case map_of (entries fs) name of None \<Rightarrow> Inl OSError | Some f \<Rightarrow> f)"

definition path_exists :: "filesys \<Rightarrow> string \<Rightarrow> bool" where
  "path_exists fs name = (name \<in> set (map fst (entries fs)))"

text \<open>\<^verbatim>\<open>str.endswith\<close>.\<close>

definition endswith :: "string \<Rightarrow> string \<Rightarrow> bool" where
  "endswith s suf = (length suf \<le> length s \<and> drop (length s - length suf) s = suf)"

text \<open>\<^verbatim>\<open>folder.glob("*.pdf")\<close>: the direct children whose name ends in \<^verbatim>\<open>.pdf\<close>.\<close>

definition glob_pdf :: "filesys \<Rightarrow> string list" where
  "glob_pdf fs = filter (\<lambda>n. endswith n ''.pdf'') (map fst (entries fs))"

text \<open>
  \<^verbatim>\<open>pdf.with_name(new_name)\<close> keeps the folder and replaces the last component; a name
  that is empty, is a dot or holds a separator is a \<^verbatim>\<open>ValueError\<close>.  Source and destination
  are in the same folder, so a path is given by its name.
\<close>

definition with_name :: "string \<Rightarrow> string \<Rightarrow> exn + string" where
  "with_name pdf new_name =
     (if new_name = [] \<or> new_name = ''.'' \<or> CHR ''/'' \<in> set new_name then Inl ValueError
      else Inr new_name)"

text \<open>
  \<^verbatim>\<open>pdf.rename(new_path)\<close>: the entry takes the new name, in place, and replaces an entry
  that already has it (the rename of POSIX).
\<close>

definition os_rename :: "filesys \<Rightarrow> string \<Rightarrow> string \<Rightarrow> exn + filesys" where
  "os_rename fs src dst =
     (if refuses fs src dst \<or> \<not> path_exists fs src then Inl OSError
      else Inr (fs\<lparr>entries :=
                  map (\<lambda>(n, f). if n = src then (dst, f) else (n, f))
                    (filter (\<lambda>(n, f). n = src \<or> n \<noteq> dst) (entries fs))\<rparr>))"

section \<open>\<^verbatim>\<open>extract_text\<close>\<close>

fun str_join :: "string \<Rightarrow> string list \<Rightarrow> string" where
  "str_join sep [] = []"
| "str_join sep [x] = x"
| "str_join sep (x # y # ys) = x @ sep @ str_join sep (y # ys)"

text \<open>
  \<^verbatim>\<open>for i in range(total): page_text = pdf.pages[i].extract_text(); if page_text: ...\<close>
  over the indices still to visit, with \<^verbatim>\<open>text_parts\<close> as built so far.
\<close>

fun extract_pages :: "page list \<Rightarrow> nat list \<Rightarrow> string list \<Rightarrow> exn + string list" where
  "extract_pages pages [] text_parts = Inr text_parts"
| "extract_pages pages (i # is) text_parts =
     (if i < length pages then
        (case pages ! i of
           Inl e \<Rightarrow> Inl e
         | Inr page_text \<Rightarrow>
             (case page_text of
                None \<Rightarrow> extract_pages pages is text_parts
              | Some t \<Rightarrow>
                  if t \<noteq> [] then extract_pages pages is (text_parts @ [t])
                  else extract_pages pages is text_parts))
      else Inl IndexError)"

text \<open>The body of the \<^verbatim>\<open>try\<close>: the parts collected and the log record of success.\<close>

definition extract_body :: "filesys \<Rightarrow> string \<Rightarrow> int \<Rightarrow> exn + (string list \<times> event list)" where
  "extract_body fs name max_pages =
     (case pdf_open fs name of
        Inl e \<Rightarrow> Inl e
      | Inr pages \<Rightarrow>
          (let total = min (int (length pages)) max_pages in
           case extract_pages pages [0..<nat total] [] of
             Inl e \<Rightarrow> Inl e
           | Inr text_parts \<Rightarrow> Inr (text_parts, [Log INFO (Extracted total name)])))"

text \<open>\<^verbatim>\<open>except Exception\<close> turns every exception of the body into the empty string.\<close>

definition extract_text :: "filesys \<Rightarrow> string \<Rightarrow> int \<Rightarrow> string \<times> event list" where
  "extract_text fs name max_pages =
     (case extract_body fs name max_pages of
        Inl e \<Rightarrow> ([], [Log ERROR (ExtractFailed name e)])
      | Inr (text_parts, evs) \<Rightarrow> (str_join [CHR 0x0A] text_parts, evs))"

section \<open>\<^verbatim>\<open>rename_from_text\<close>\<close>

text \<open>
  The regular expression library is outside the program too.  Compiling a pattern gives
  \<^verbatim>\<open>re.error\<close> (with its message) or a compiled pattern; searching a text gives no match or
  a match with its positional groups (\<^verbatim>\<open>m.groups()\<close>) and its named groups
  (\<^verbatim>\<open>m.groupdict()\<close>).
\<close>

datatype re_flag = IGNORECASE | MULTILINE

record re_match =
  groups :: "pyval list"
  groupdict :: "(string \<times> pyval) list"

record 'rx pylib =
  re_compile :: "string \<Rightarrow> re_flag list \<Rightarrow> string + 'rx"
  re_search :: "'rx \<Rightarrow> string \<Rightarrow> re_match option"
  object_format :: obj_fmt

text \<open>The folder and everything the run has done to the outside so far.\<close>

record world =
  fsys :: filesys
  out :: "event list"

definition emit :: "event list \<Rightarrow> world \<Rightarrow> world" where
  "emit evs w = w\<lparr>out := out w @ evs\<rparr>"

text \<open>
  Lines 102 to 105: the positional groups behind a dummy element at index 0, the
  template filled in, and the suffix \<^verbatim>\<open>.pdf\<close> appended when the result lacks it.
\<close>

definition render_name :: "'rx pylib \<Rightarrow> string \<Rightarrow> re_match \<Rightarrow> exn + string" where
  "render_name L template m =
     (let groups_1indexed = None # groups m in
      case str_format (object_format L) template groups_1indexed (groupdict m) of
        Inl e \<Rightarrow> Inl e
      | Inr new_name \<Rightarrow>
          Inr (if \<not> endswith new_name ''.pdf'' then new_name @ ''.pdf'' else new_name))"

text \<open>
  Lines 101 to 119, the body of the \<^verbatim>\<open>try\<close> for one file with its match: \<open>Inr True\<close> when
  the file is counted, \<open>Inr False\<close> when the collision guard leaves the loop body with
  \<^verbatim>\<open>continue\<close>, \<open>Inl\<close> for an exception.
\<close>

definition rename_one ::
  "'rx pylib \<Rightarrow> string \<Rightarrow> bool \<Rightarrow> string \<Rightarrow> re_match \<Rightarrow> world \<Rightarrow> (exn + bool) \<times> world"
where
  "rename_one L template dry_run pdf m w =
     (case render_name L template m of
        Inl e \<Rightarrow> (Inl e, w)
      | Inr new_name \<Rightarrow>
          (case with_name pdf new_name of
             Inl e \<Rightarrow> (Inl e, w)
           | Inr new_path \<Rightarrow>
               if path_exists (fsys w) new_path \<and> new_path \<noteq> pdf then
                 (Inr False, emit [Log ERROR (TargetExists pdf new_name)] w)
               else
                 (let w1 = emit [Log INFO (RenamePlan dry_run pdf new_name)] w in
                  if \<not> dry_run then
                    (let w2 = emit [Rename pdf new_path] w1 in
                     case os_rename (fsys w2) pdf new_path of
                       Inl e \<Rightarrow> (Inl e, w2)
                     | Inr fs' \<Rightarrow> (Inr True, w2\<lparr>fsys := fs'\<rparr>))
                  else (Inr True, w1))))"

text \<open>
  The body of the \<^verbatim>\<open>for\<close> loop, lines 90 to 124: \<^verbatim>\<open>except (IndexError, KeyError)\<close>
  catches these two and lets every other exception out of the function.
\<close>

definition process_pdf ::
  "'rx pylib \<Rightarrow> 'rx \<Rightarrow> string \<Rightarrow> int \<Rightarrow> bool \<Rightarrow> string \<Rightarrow> nat \<Rightarrow> world \<Rightarrow> (exn + nat) \<times> world"
where
  "process_pdf L rx template max_pages dry_run pdf matched w =
     (case extract_text (fsys w) pdf max_pages of
        (txt, evs) \<Rightarrow>
          (let w1 = emit evs w in
           if txt = [] then (Inr matched, emit [Log WARNING (NoTextExtracted pdf)] w1)
           else
             (case re_search L rx txt of
                None \<Rightarrow> (Inr matched, emit [Log WARNING (PatternNotFound pdf)] w1)
              | Some m \<Rightarrow>
                  (case rename_one L template dry_run pdf m w1 of
                     (Inr counted, w2) \<Rightarrow> (Inr (if counted then matched + 1 else matched), w2)
                   | (Inl e, w2) \<Rightarrow>
                       if e = IndexError \<or> e = KeyError then
                         (Inr matched,
                          emit [Log ERROR (TemplateError pdf e),
                                Log INFO (RegexCaptured (groups m) (groupdict m))] w2)
                       else (Inl e, w2)))))"

fun rename_loop ::
  "'rx pylib \<Rightarrow> 'rx \<Rightarrow> string \<Rightarrow> int \<Rightarrow> bool \<Rightarrow> string list \<Rightarrow> nat \<Rightarrow> world \<Rightarrow> (exn + nat) \<times> world"
where
  "rename_loop L rx template max_pages dry_run [] matched w = (Inr matched, w)"
| "rename_loop L rx template max_pages dry_run (pdf # pdfs) matched w =
     (case process_pdf L rx template max_pages dry_run pdf matched w of
        (Inl e, w') \<Rightarrow> (Inl e, w')
      | (Inr matched', w') \<Rightarrow> rename_loop L rx template max_pages dry_run pdfs matched' w')"

definition rule_line :: string where
  "rule_line = replicate 60 CHR ''-''"

definition rename_from_text ::
  "'rx pylib \<Rightarrow> filesys \<Rightarrow> string \<Rightarrow> string \<Rightarrow> string \<Rightarrow> int \<Rightarrow> bool \<Rightarrow> (exn + nat) \<times> world"
where
  "rename_from_text L fs folder pattern template max_pages dry_run =
     (let w0 = \<lparr>fsys = fs, out = []\<rparr> in
      case re_compile L pattern [IGNORECASE, MULTILINE] of
        Inl e \<Rightarrow> (Inr 0, emit [Log ERROR (InvalidPattern e)] w0)
      | Inr rx \<Rightarrow>
          (let pdfs = glob_pdf fs in
           if pdfs = [] then (Inr 0, emit [Log WARNING (NoPdfFound folder)] w0)
           else
             (let w1 = emit [Log INFO (Processing (length pdfs) folder),
                             Log INFO (PatternIs pattern),
                             Log INFO (TemplateIs template),
                             Log INFO (ModeIs dry_run),
                             Print rule_line] w0
              in
              case rename_loop L rx template max_pages dry_run pdfs 0 w1 of
                (Inl e, w2) \<Rightarrow> (Inl e, w2)
              | (Inr matched, w2) \<Rightarrow>
                  (Inr matched,
                   emit ([Print rule_line,
                          Log INFO (Summary matched (length pdfs) dry_run)]
                         @ (if dry_run then [Log INFO RunWithApply] else [])) w2))))"

section \<open>Sample inputs\<close>

text \<open>
  Concrete inputs for the instances below.  The sample library stands for Python's
  \<^verbatim>\<open>re\<close> on the patterns and texts used here: \<open>sample_matches\<close> lists, for a pattern and a
  text, the groups of the first match that \<^verbatim>\<open>re.search\<close> finds under
  \<^verbatim>\<open>re.IGNORECASE | re.MULTILINE\<close>; the pattern \<^verbatim>\<open>(\<close> does not compile.  A backslash is
  \<open>CHR 0x5C\<close>.
\<close>

definition invoice_pattern :: string where
  "invoice_pattern = ''Invoice #('' @ [CHR 0x5C] @ ''d+)''"

definition order_pattern :: string where
  "order_pattern = ''Order ID: (?P<order>'' @ [CHR 0x5C] @ ''w+)''"

definition revision_pattern :: string where
  "revision_pattern =
     ''Invoice #('' @ [CHR 0x5C] @ ''d+)(?: rev ('' @ [CHR 0x5C] @ ''d+))?''"

definition date_pattern :: string where
  "date_pattern = ''Date: ('' @ [CHR 0x5C] @ ''S+)''"

definition sample_matches :: "((string \<times> string) \<times> re_match) list" where
  "sample_matches =
     [((invoice_pattern, ''Invoice #4521''),
         \<lparr>groups = [Some ''4521''], groupdict = []\<rparr>),
      ((invoice_pattern, ''Invoice #4521'' @ [CHR 0x0A] @ ''Total 9''),
         \<lparr>groups = [Some ''4521''], groupdict = []\<rparr>),
      ((order_pattern, ''Order ID: AB99''),
         \<lparr>groups = [Some ''AB99''], groupdict = [(''order'', Some ''AB99'')]\<rparr>),
      ((revision_pattern, ''Invoice #4521''),
         \<lparr>groups = [Some ''4521'', None], groupdict = []\<rparr>),
      ((date_pattern, ''Date: 01/02/2024''),
         \<lparr>groups = [Some ''01/02/2024''], groupdict = []\<rparr>)]"

definition sample_lib :: "string pylib" where
  "sample_lib =
     \<lparr>re_compile = (\<lambda>pattern flags. if pattern = ''('' then Inl ''missing )'' else Inr pattern),
      re_search = (\<lambda>rx txt. map_of sample_matches (rx, txt)),
      object_format = (\<lambda>obj rest cv spec args kwargs an. Inl TypeError)\<rparr>"

text \<open>
  A folder of two invoices, a scan without text, a file that is no PDF and a note.
  The second invoice has four pages: text, none, text, and one the library cannot read.
\<close>

definition sample_folder :: filesys where
  "sample_folder =
     \<lparr>entries =
        [(''a.pdf'', Inr [Inr (Some ''Invoice #4521'')]),
         (''b.pdf'', Inr [Inr (Some ''Invoice #4521''), Inr None, Inr (Some ''Total 9''),
                          Inl PdfError]),
         (''scan.pdf'', Inr [Inr None, Inr (Some [])]),
         (''broken.pdf'', Inl PdfError),
         (''notes.txt'', Inl PdfError)],
      refuses = (\<lambda>src dst. False)\<rparr>"

section \<open>The extractor\<close>

text \<open>The text a page yields, empty when it yields none.\<close>

definition page_text :: "page \<Rightarrow> string" where
  "page_text p = (case p of Inl e \<Rightarrow> [] | Inr None \<Rightarrow> [] | Inr (Some t) \<Rightarrow> t)"

lemma extract_pages_ok:
  assumes "\<forall>i\<in>set is. i < length pages \<and> \<not> isl (pages ! i)"
  shows "extract_pages pages is acc =
           Inr (acc @ filter (\<lambda>t. t \<noteq> []) (map (\<lambda>i. page_text (pages ! i)) is))"
  using assms
  by (induction "is" arbitrary: acc) (auto simp: page_text_def split: sum.splits option.splits)

lemma extract_pages_err:
  assumes "\<exists>i\<in>set is. isl (pages ! i)" and "\<forall>i\<in>set is. i < length pages"
  shows "\<exists>e. extract_pages pages is acc = Inl e"
  using assms
  by (induction "is" arbitrary: acc) (auto split: sum.splits option.splits)

lemma map_nth_upt_take:
  assumes "n \<le> length xs"
  shows "map (\<lambda>i. f (xs ! i)) [0..<n] = map f (take n xs)"
proof -
  have "map ((!) xs) [0..<n] = take n (map ((!) xs) [0..<length xs])"
    using assms by (simp add: take_map)
  also have "\<dots> = take n xs"
    by (simp only: map_nth)
  finally have "map f (map ((!) xs) [0..<n]) = map f (take n xs)"
    by simp
  then show ?thesis by (simp add: comp_def)
qed

lemma set_take_nth:
  assumes "n \<le> length xs"
  shows "(\<exists>i\<in>set [0..<n]. P (xs ! i)) = (\<exists>x\<in>set (take n xs). P x)"
proof -
  have "set (take n xs) = (\<lambda>i. xs ! i) ` {0..<n}"
    using assms by (metis map_nth_upt_take[of n xs "\<lambda>x. x"] list.set_map map_ident set_upt)
  then show ?thesis by auto
qed

lemma extract_body_cases:
  fixes pages :: "page list" and max_pages :: int
  assumes "pdf_open fs name = Inr pages"
  defines "n \<equiv> min (length pages) (nat max_pages)"
  shows "(\<exists>p\<in>set (take n pages). isl p) \<Longrightarrow> \<exists>e. extract_body fs name max_pages = Inl e"
    and "\<not> (\<exists>p\<in>set (take n pages). isl p) \<Longrightarrow>
         extract_body fs name max_pages =
           Inr (filter (\<lambda>t. t \<noteq> []) (map page_text (take n pages)),
                [Log INFO (Extracted (min (int (length pages)) max_pages) name)])"
proof -
  have total: "nat (min (int (length pages)) max_pages) = n"
    unfolding n_def by linarith
  have le: "n \<le> length pages"
    by (simp add: n_def)
  have range: "\<forall>i\<in>set [0..<n]. i < length pages"
    using le by simp
  {
    assume "\<exists>p\<in>set (take n pages). isl p"
    then have "\<exists>i\<in>set [0..<n]. isl (pages ! i)"
      using set_take_nth[OF le, of isl] by simp
    then obtain e where "extract_pages pages [0..<n] [] = Inl e"
      using extract_pages_err[OF _ range] by blast
    then show "\<exists>e. extract_body fs name max_pages = Inl e"
      using assms(1) by (simp add: extract_body_def Let_def total)
  }
  {
    assume "\<not> (\<exists>p\<in>set (take n pages). isl p)"
    then have "\<forall>i\<in>set [0..<n]. i < length pages \<and> \<not> isl (pages ! i)"
      using set_take_nth[OF le, of isl] range by simp
    then have "extract_pages pages [0..<n] [] =
        Inr (filter (\<lambda>t. t \<noteq> []) (map (\<lambda>i. page_text (pages ! i)) [0..<n]))"
      using extract_pages_ok[of "[0..<n]" pages "[]"] by simp
    then show "extract_body fs name max_pages =
           Inr (filter (\<lambda>t. t \<noteq> []) (map page_text (take n pages)),
                [Log INFO (Extracted (min (int (length pages)) max_pages) name)])"
      using assms(1) map_nth_upt_take[OF le, of page_text]
      by (simp add: extract_body_def Let_def total)
  }
qed

text \<open>
  Claim C4.  For every document and every \<open>max_pages \<ge> 1\<close> the extractor returns a string
  and never an exception: when the document opens and none of its first
  \<open>min(available, max_pages)\<close> pages raises, the non-empty texts of these pages in page
  order, joined by newlines; the empty string when opening or one of these pages raises,
  and when none of these pages yields text.
\<close>

theorem extract_text_first_pages:
  assumes "1 \<le> max_pages"
  shows "fst (extract_text fs name max_pages) =
     (case pdf_open fs name of
        Inl e \<Rightarrow> []
      | Inr pages \<Rightarrow>
          (let first = take (min (length pages) (nat max_pages)) pages in
           if \<exists>p\<in>set first. isl p then []
           else str_join [CHR 0x0A] (filter (\<lambda>t. t \<noteq> []) (map page_text first))))
   \<and> (\<forall>pages. pdf_open fs name = Inr pages \<and>
          (\<forall>p\<in>set (take (min (length pages) (nat max_pages)) pages). page_text p = [])
        \<longrightarrow> fst (extract_text fs name max_pages) = [])"
proof -
  have main: "fst (extract_text fs name max_pages) =
     (case pdf_open fs name of
        Inl e \<Rightarrow> []
      | Inr pages \<Rightarrow>
          (let first = take (min (length pages) (nat max_pages)) pages in
           if \<exists>p\<in>set first. isl p then []
           else str_join [CHR 0x0A] (filter (\<lambda>t. t \<noteq> []) (map page_text first))))"
  proof (cases "pdf_open fs name")
    case (Inl e)
    then show ?thesis by (simp add: extract_text_def extract_body_def)
  next
    case (Inr pages)
    show ?thesis
    proof (cases "\<exists>p\<in>set (take (min (length pages) (nat max_pages)) pages). isl p")
      case True
      then obtain e where "extract_body fs name max_pages = Inl e"
        using extract_body_cases(1)[OF Inr] by blast
      then show ?thesis using Inr True by (simp add: extract_text_def Let_def)
    next
      case False
      then show ?thesis
        using extract_body_cases(2)[OF Inr False] Inr
        by (simp add: extract_text_def Let_def)
    qed
  qed
  have none: "fst (extract_text fs name max_pages) = []"
    if op: "pdf_open fs name = Inr pages"
      and blank: "\<forall>p\<in>set (take (min (length pages) (nat max_pages)) pages). page_text p = []"
    for pages
  proof -
    have "filter (\<lambda>t. t \<noteq> [])
            (map page_text (take (min (length pages) (nat max_pages)) pages)) = []"
      using blank by (simp add: filter_empty_conv)
    then show ?thesis using main op by (simp add: Let_def)
  qed
  show ?thesis using main none by blast
qed

theorem extract_text_first_pages_witness:
  "(1::int) \<le> 3 \<and>
   fst (extract_text sample_folder ''b.pdf'' 3) = ''Invoice #4521'' @ [CHR 0x0A] @ ''Total 9'' \<and>
   fst (extract_text sample_folder ''b.pdf'' 4) = [] \<and>
   fst (extract_text sample_folder ''scan.pdf'' 2) = []"
proof -
  have three: "(1::int) \<le> 3" and four: "(1::int) \<le> 4" and two: "(1::int) \<le> 2"
    by simp_all
  have b: "pdf_open sample_folder ''b.pdf'' =
      Inr [Inr (Some ''Invoice #4521''), Inr None, Inr (Some ''Total 9''), Inl PdfError]"
    by (simp add: pdf_open_def sample_folder_def)
  have s: "pdf_open sample_folder ''scan.pdf'' = Inr [Inr None, Inr (Some [])]"
    by (simp add: pdf_open_def sample_folder_def)
  show ?thesis
    using extract_text_first_pages[OF three, of sample_folder "''b.pdf''"]
      extract_text_first_pages[OF four, of sample_folder "''b.pdf''"]
      extract_text_first_pages[OF two, of sample_folder "''scan.pdf''"]
    by (simp add: b s page_text_def)
qed

text \<open>
  Claim C9, as amended.  For every \<open>max_pages \<le> 0\<close> the extractor returns the empty
  string and never an exception.  A document that opens has none of its pages visited
  and the run is logged as a success, with the count \<open>min(available, max_pages)\<close>; a
  document that does not open is reported as an error, as for any other page limit.
\<close>

theorem extract_text_no_pages:
  assumes "max_pages \<le> 0"
  shows "fst (extract_text fs name max_pages) = [] \<and>
    (\<forall>pages. pdf_open fs name = Inr pages \<longrightarrow>
       [0..<nat (min (int (length pages)) max_pages)] = [] \<and>
       extract_text fs name max_pages =
         ([], [Log INFO (Extracted (min (int (length pages)) max_pages) name)])) \<and>
    (\<forall>e. pdf_open fs name = Inl e \<longrightarrow>
       extract_text fs name max_pages = ([], [Log ERROR (ExtractFailed name e)]))"
proof -
  have zero: "nat (min (int (length pages)) max_pages) = 0" for pages :: "page list"
    using assms by simp
  show ?thesis
    by (cases "pdf_open fs name") (simp_all add: extract_text_def extract_body_def Let_def zero)
qed

theorem extract_text_no_pages_witness:
  "(-3::int) \<le> 0 \<and>
   extract_text sample_folder ''b.pdf'' (-3) = ([], [Log INFO (Extracted (-3) ''b.pdf'')]) \<and>
   extract_text sample_folder ''broken.pdf'' (-3) =
     ([], [Log ERROR (ExtractFailed ''broken.pdf'' PdfError)])"
proof -
  have neg: "(-3::int) \<le> 0" by simp
  show ?thesis
    using extract_text_no_pages[OF neg, of sample_folder "''b.pdf''"]
      extract_text_no_pages[OF neg, of sample_folder "''broken.pdf''"]
    by (simp add: pdf_open_def sample_folder_def)
qed

text \<open>
  Claim C9 as it was stated has no error reported for any document path.  With a page
  limit of 0 the unreadable file of the sample folder is reported at level \<open>ERROR\<close>.
\<close>

theorem extract_text_zero_pages_reports_error:
  "extract_text sample_folder ''broken.pdf'' 0 =
     ([], [Log ERROR (ExtractFailed ''broken.pdf'' PdfError)])"
  by (simp add: extract_text_def extract_body_def pdf_open_def sample_folder_def)

end
